theory Spec2Isabelle
  imports Main
begin

section \<open>The task handle of the containerd driver (handle.go)\<close>

text \<open>
  The handle drives one container/task pair of an external runtime. Everything the
  Go code does beyond computing a value is explicit here: the handle is a record that
  every operation takes and gives back, the outside world is a clock and the list of
  the calls issued so far, the runtime's answers come from a \<open>runtime\<close> record of
  functions of that world (so they may depend on the time and on the whole history),
  and an operation ends by returning, by panicking or by blocking on the state lock.
\<close>

subsection \<open>Values of the Go standard library\<close>

text \<open>\<open>time.Duration\<close> is a count of nanoseconds; \<open>time.Second\<close> is \<open>10^9\<close> of them.\<close>

type_synonym Duration = int

definition Second :: Duration where
  "Second = 1000000000"

text \<open>
  A \<open>time.Time\<close> is modelled by the nanoseconds since the zero time, so the zero value
  of the type is \<open>0\<close>.
\<close>

type_synonym Time = int

text \<open>\<open>syscall.Signal\<close> is an integer type; on Linux SIGKILL is 9 and SIGTERM is 15.\<close>

type_synonym Signal = int

definition SIGKILL :: Signal where
  "SIGKILL = 9"

definition SIGTERM :: Signal where
  "SIGTERM = 15"

text \<open>
  \<open>os.Signal\<close> is an interface: its value is a \<open>syscall.Signal\<close>, a value of any other
  type that implements the interface (named here by its \<open>String()\<close>), or nil.
\<close>

datatype os_Signal = syscall_Signal Signal | foreign_Signal string | nil_Signal

text \<open>
  The type assertion \<open>sig.(syscall.Signal)\<close> in its one-result form: \<open>None\<close> is the
  run-time panic of an assertion that does not hold.
\<close>

fun assert_syscall_Signal :: "os_Signal \<Rightarrow> Signal option" where
  "assert_syscall_Signal (syscall_Signal s) = Some s"
| "assert_syscall_Signal (foreign_Signal n) = None"
| "assert_syscall_Signal nil_Signal = None"

text \<open>A Go \<open>error\<close> is a message; the nil error is \<open>None\<close> of \<open>error option\<close>.\<close>

datatype error = Error string

datatype Context = Context string

text \<open>
  A receive-only channel, by the values it will deliver. The nil channel is \<open>None\<close> of
  \<open>'a chan option\<close>: a receive on it blocks forever, so it delivers nothing.
\<close>

datatype 'a chan = Chan "'a list"

fun delivered :: "'a chan option \<Rightarrow> 'a list" where
  "delivered None = []"
| "delivered (Some (Chan xs)) = xs"

text \<open>
  \<open>sync.RWMutex\<close>, as one goroutine sees it: whether a writer holds it and how many
  readers do. \<open>Lock\<close> and \<open>RLock\<close> give \<open>None\<close> where the caller would block,
  \<open>Unlock\<close> and \<open>RUnlock\<close> give \<open>None\<close> where the Go runtime stops the program
  (unlock of a mutex that is not locked).
\<close>

datatype RWMutex = RWMutex (writer: bool) (readers: nat)

fun Lock :: "RWMutex \<Rightarrow> RWMutex option" where
  "Lock (RWMutex False 0) = Some (RWMutex True 0)"
| "Lock (RWMutex wr rd) = None"

definition Unlock :: "RWMutex \<Rightarrow> RWMutex option" where
  "Unlock m = (if writer m then Some (RWMutex False (readers m)) else None)"

definition RLock :: "RWMutex \<Rightarrow> RWMutex option" where
  "RLock m = (if writer m then None else Some (RWMutex False (Suc (readers m))))"

definition RUnlock :: "RWMutex \<Rightarrow> RWMutex option" where
  "RUnlock m = (if readers m = 0 then None else Some (RWMutex (writer m) (readers m - 1)))"

subsection \<open>Types of the orchestrator and of the runtime client\<close>

text \<open>
  Modelled from the spec: \<open>drivers.TaskState\<close> is declared in the orchestrator's plugin
  package, which is not part of this repository; section 3 of the specification gives it
  as the enumeration Pending, Running, Exited.
\<close>

datatype TaskState = TaskStatePending | TaskStateRunning | TaskStateExited

text \<open>
  Modelled from the spec: \<open>drivers.TaskConfig\<close>, \<open>drivers.ExitResult\<close> and
  \<open>drivers.TaskStatus\<close> are declared in the same package. The handle reads the
  identifier and the name of the configuration and never looks inside an exit result.
\<close>

record TaskConfig =
  TaskConfig_ID :: string
  TaskConfig_Name :: string

record ExitResult =
  ExitCode :: int
  ExitSignal :: int
  OOMKilled :: bool

record TaskStatus =
  ID :: string
  Name :: string
  State :: TaskState
  StartedAt :: Time
  CompletedAt :: Time
  ExitResult :: "ExitResult option"
  DriverAttributes :: "string \<rightharpoonup> string"

record TaskResourceUsage =
  Timestamp :: int

text \<open>
  Modelled from the spec: \<open>containerd.ProcessStatus\<close> and \<open>containerd.Status\<close> are
  declared in the runtime client; section 6 of the specification gives the status as
  Running, Stopped and others, which \<open>OtherStatus\<close> names.
\<close>

datatype ProcessStatus = Running | Stopped | OtherStatus string

record containerd_Status =
  Status :: ProcessStatus
  ExitStatus :: nat
  ExitTime :: Time

record containerd_ExitStatus =
  code :: nat
  exitedAt :: Time

datatype DeleteOpts = WithSnapshotCleanup

text \<open>
  The logger, the container and the task are capabilities of collaborators. The driver
  builds a handle with all three set, and with its task configuration; the model has no
  nil value for them.
\<close>

datatype Logger = Logger string

datatype Container = Container string

datatype Task = Task string

subsection \<open>The world outside the handle\<close>

text \<open>
  An event is a call that leaves the handle: a sleep, a call of the runtime client or a
  line given to the logger. The world keeps the clock and the events issued so far, each
  with the time at which it was issued, oldest first.
\<close>

datatype event =
    EvSleep Duration
  | EvStart Task Context
  | EvKill Task Context Signal
  | EvStatus Task Context
  | EvTaskDelete Task Context
  | EvContainerDelete Container Context "DeleteOpts list"
  | EvInfo Logger string

record world =
  now :: Time
  trace :: "(Time \<times> event) list"

text \<open>
  What the runtime answers is not decided by the handle. Each answer is a function of
  the world at the moment of the call and of the call's arguments; \<open>rt_elapse\<close> is the
  time a call takes beyond what it asks for (a sleep lasts at least its duration).
\<close>

record runtime =
  rt_Start :: "world \<Rightarrow> Task \<Rightarrow> Context \<Rightarrow> error option"
  rt_Kill :: "world \<Rightarrow> Task \<Rightarrow> Context \<Rightarrow> Signal \<Rightarrow> error option"
  rt_Status :: "world \<Rightarrow> Task \<Rightarrow> Context \<Rightarrow> containerd_Status \<times> error option"
  rt_task_Delete :: "world \<Rightarrow> Task \<Rightarrow> Context \<Rightarrow> containerd_ExitStatus option \<times> error option"
  rt_container_Delete :: "world \<Rightarrow> Container \<Rightarrow> Context \<Rightarrow> DeleteOpts list \<Rightarrow> error option"
  rt_elapse :: "world \<Rightarrow> nat"

definition issue :: "runtime \<Rightarrow> event \<Rightarrow> Duration \<Rightarrow> world \<Rightarrow> world" where
  "issue rt e d w =
     w\<lparr>now := now w + max 0 d + int (rt_elapse rt w), trace := trace w @ [(now w, e)]\<rparr>"

definition time_Sleep :: "runtime \<Rightarrow> Duration \<Rightarrow> world \<Rightarrow> world" where
  "time_Sleep rt d w = issue rt (EvSleep d) d w"

definition task_Start :: "runtime \<Rightarrow> Task \<Rightarrow> Context \<Rightarrow> world \<Rightarrow> error option \<times> world" where
  "task_Start rt t ctx w = (rt_Start rt w t ctx, issue rt (EvStart t ctx) 0 w)"

definition task_Kill ::
  "runtime \<Rightarrow> Task \<Rightarrow> Context \<Rightarrow> Signal \<Rightarrow> world \<Rightarrow> error option \<times> world" where
  "task_Kill rt t ctx s w = (rt_Kill rt w t ctx s, issue rt (EvKill t ctx s) 0 w)"

definition task_Status ::
  "runtime \<Rightarrow> Task \<Rightarrow> Context \<Rightarrow> world \<Rightarrow> (containerd_Status \<times> error option) \<times> world" where
  "task_Status rt t ctx w = (rt_Status rt w t ctx, issue rt (EvStatus t ctx) 0 w)"

definition task_Delete ::
  "runtime \<Rightarrow> Task \<Rightarrow> Context \<Rightarrow> world
     \<Rightarrow> (containerd_ExitStatus option \<times> error option) \<times> world" where
  "task_Delete rt t ctx w = (rt_task_Delete rt w t ctx, issue rt (EvTaskDelete t ctx) 0 w)"

definition container_Delete ::
  "runtime \<Rightarrow> Container \<Rightarrow> Context \<Rightarrow> DeleteOpts list \<Rightarrow> world \<Rightarrow> error option \<times> world" where
  "container_Delete rt c ctx opts w =
     (rt_container_Delete rt w c ctx opts, issue rt (EvContainerDelete c ctx opts) 0 w)"

definition logger_Info :: "runtime \<Rightarrow> Logger \<Rightarrow> string \<Rightarrow> world \<Rightarrow> world" where
  "logger_Info rt l msg w = issue rt (EvInfo l msg) 0 w"

text \<open>The events that a later world has on top of an earlier one, with and without times.\<close>

definition issued :: "world \<Rightarrow> world \<Rightarrow> (Time \<times> event) list" where
  "issued w w' = drop (length (trace w)) (trace w')"

definition calls :: "world \<Rightarrow> world \<Rightarrow> event list" where
  "calls w w' = map snd (issued w w')"

subsection \<open>The handle and its operations\<close>

record taskHandle =
  stateLock :: RWMutex
  logger :: Logger
  taskConfig :: TaskConfig
  procState :: TaskState
  startedAt :: Time
  completedAt :: Time
  exitResult :: "ExitResult option"
  containerName :: string
  container :: Container
  task :: Task

text \<open>
  How a call of an operation ends: it returns its results, it panics, or it waits for
  the state lock that nothing in a sequential run will release.
\<close>

datatype 'a outcome = Returned 'a | Panicked | Blocked

text \<open>
  \<open>TaskStatus\<close> and \<open>IsRunning\<close> read the fields under the read lock, which the
  deferred \<open>RUnlock\<close> gives back.
\<close>

definition TaskStatus :: "taskHandle \<Rightarrow> TaskStatus outcome \<times> taskHandle" where
  "TaskStatus h =
     (case RLock (stateLock h) of
        None \<Rightarrow> (Blocked, h)
      | Some m \<Rightarrow>
          let h1 = h\<lparr>stateLock := m\<rparr>;
              status = \<lparr>ID = TaskConfig_ID (taskConfig h1),
                        Name = TaskConfig_Name (taskConfig h1),
                        State = procState h1,
                        StartedAt = startedAt h1,
                        CompletedAt = completedAt h1,
                        ExitResult = exitResult h1,
                        DriverAttributes = [''containerName'' \<mapsto> containerName h1]\<rparr>
          in (case RUnlock (stateLock h1) of
                None \<Rightarrow> (Panicked, h1)
              | Some m' \<Rightarrow> (Returned status, h1\<lparr>stateLock := m'\<rparr>)))"

definition IsRunning :: "taskHandle \<Rightarrow> bool outcome \<times> taskHandle" where
  "IsRunning h =
     (case RLock (stateLock h) of
        None \<Rightarrow> (Blocked, h)
      | Some m \<Rightarrow>
          let h1 = h\<lparr>stateLock := m\<rparr>;
              r = (procState h1 = TaskStateRunning)
          in (case RUnlock (stateLock h1) of
                None \<Rightarrow> (Panicked, h1)
              | Some m' \<Rightarrow> (Returned r, h1\<lparr>stateLock := m'\<rparr>)))"

text \<open>
  \<open>run\<close> has no result. It takes the write lock, sleeps five seconds, calls \<open>Start\<close>
  and drops what \<open>Start\<close> returns; the deferred \<open>Unlock\<close> gives the lock back.
\<close>

definition run ::
  "runtime \<Rightarrow> Context \<Rightarrow> taskHandle \<Rightarrow> world \<Rightarrow> unit outcome \<times> taskHandle \<times> world" where
  "run rt ctxContainerd h w =
     (case Lock (stateLock h) of
        None \<Rightarrow> (Blocked, h, w)
      | Some m \<Rightarrow>
          let h1 = h\<lparr>stateLock := m\<rparr>;
              w1 = time_Sleep rt (5 * Second) w;
              (_, w2) = task_Start rt (task h1) ctxContainerd w1
          in (case Unlock (stateLock h1) of
                None \<Rightarrow> (Panicked, h1, w2)
              | Some m' \<Rightarrow> (Returned (), h1\<lparr>stateLock := m'\<rparr>, w2)))"

definition shutdown ::
  "runtime \<Rightarrow> Context \<Rightarrow> Duration \<Rightarrow> Signal \<Rightarrow> taskHandle \<Rightarrow> world
     \<Rightarrow> error option outcome \<times> taskHandle \<times> world" where
  "shutdown rt ctxContainerd timeout signal h w =
     (let (err, w1) = task_Kill rt (task h) ctxContainerd signal w in
      if err \<noteq> None then (Returned err, h, w1)
      else
        let w2 = time_Sleep rt timeout w1;
            ((status, err), w3) = task_Status rt (task h) ctxContainerd w2 in
        if err \<noteq> None then (Returned err, h, w3)
        else if Status status \<noteq> Running then
          (Returned None, h,
           logger_Info rt (logger h) ''Task is not running anymore, no need to SIGKILL'' w3)
        else
          let (err, w4) = task_Kill rt (task h) ctxContainerd SIGKILL w3
          in (Returned err, h, w4))"

definition cleanup ::
  "runtime \<Rightarrow> Context \<Rightarrow> taskHandle \<Rightarrow> world \<Rightarrow> error option outcome \<times> taskHandle \<times> world" where
  "cleanup rt ctxContainerd h w =
     (let ((_, err), w1) = task_Delete rt (task h) ctxContainerd w in
      if err \<noteq> None then (Returned err, h, w1)
      else
        let (err, w2) =
              container_Delete rt (container h) ctxContainerd [WithSnapshotCleanup] w1 in
        if err \<noteq> None then (Returned err, h, w2)
        else (Returned None, h, w2))"

definition stats ::
  "Context \<Rightarrow> Duration \<Rightarrow> taskHandle \<Rightarrow> world
     \<Rightarrow> (TaskResourceUsage chan option \<times> error option) outcome \<times> taskHandle \<times> world" where
  "stats ctx interval h w = (Returned (None, None), h, w)"

text \<open>
  In \<open>signal\<close> the type assertion is an argument of the call of \<open>Kill\<close>: it is
  evaluated, and panics, before the call is made.
\<close>

definition signal ::
  "runtime \<Rightarrow> Context \<Rightarrow> os_Signal \<Rightarrow> taskHandle \<Rightarrow> world
     \<Rightarrow> error option outcome \<times> taskHandle \<times> world" where
  "signal rt ctxContainerd sig h w =
     (case assert_syscall_Signal sig of
        None \<Rightarrow> (Panicked, h, w)
      | Some s \<Rightarrow>
          let (err, w1) = task_Kill rt (task h) ctxContainerd s w
          in (Returned err, h, w1))"

subsection \<open>Vocabulary of the properties\<close>

text \<open>Whether a call ended by returning a non-nil error.\<close>

fun returns_error :: "error option outcome \<Rightarrow> bool" where
  "returns_error (Returned (Some e)) = True"
| "returns_error r = False"

fun is_Start :: "event \<Rightarrow> bool" where
  "is_Start (EvStart t ctx) = True"
| "is_Start e = False"

text \<open>
  A forceful kill is a \<open>Kill\<close> that carries SIGKILL, whichever statement of
  \<open>shutdown\<close> issued it; \<open>forceful_kills\<close> counts them in a sequence of calls.
\<close>

fun is_forceful_kill :: "event \<Rightarrow> bool" where
  "is_forceful_kill (EvKill t ctx s) = (s = SIGKILL)"
| "is_forceful_kill e = False"

definition forceful_kills :: "event list \<Rightarrow> nat" where
  "forceful_kills es = length (filter is_forceful_kill es)"

text \<open>The invariant of the data model, on a handle and on a status snapshot.\<close>

definition exited_has_result :: "taskHandle \<Rightarrow> bool" where
  "exited_has_result h =
     (procState h = TaskStateExited \<longrightarrow> exitResult h \<noteq> None \<and> completedAt h \<noteq> 0)"

definition status_exited_has_result :: "TaskStatus \<Rightarrow> bool" where
  "status_exited_has_result s =
     (State s = TaskStateExited \<longrightarrow> ExitResult s \<noteq> None \<and> CompletedAt s \<noteq> 0)"

text \<open>
  The operations a driver can invoke on a handle, and the handle and world that a
  sequence of them leaves, whatever each call returned.
\<close>

datatype operation =
    OpTaskStatus
  | OpIsRunning
  | OpRun Context
  | OpShutdown Context Duration Signal
  | OpCleanup Context
  | OpStats Context Duration
  | OpSignal Context os_Signal

fun perform :: "runtime \<Rightarrow> operation \<Rightarrow> taskHandle \<times> world \<Rightarrow> taskHandle \<times> world" where
  "perform rt OpTaskStatus (h, w) = (snd (TaskStatus h), w)"
| "perform rt OpIsRunning (h, w) = (snd (IsRunning h), w)"
| "perform rt (OpRun ctx) (h, w) = snd (run rt ctx h w)"
| "perform rt (OpShutdown ctx timeout sig) (h, w) = snd (shutdown rt ctx timeout sig h w)"
| "perform rt (OpCleanup ctx) (h, w) = snd (cleanup rt ctx h w)"
| "perform rt (OpStats ctx interval) (h, w) = snd (stats ctx interval h w)"
| "perform rt (OpSignal ctx sig) (h, w) = snd (signal rt ctx sig h w)"

fun perform_all ::
  "runtime \<Rightarrow> operation list \<Rightarrow> taskHandle \<times> world \<Rightarrow> taskHandle \<times> world" where
  "perform_all rt [] hw = hw"
| "perform_all rt (op # ops) hw = perform_all rt ops (perform rt op hw)"

subsection \<open>A scripted runtime and two handles\<close>

text \<open>
  The concrete scenarios of the specification run against a fake runtime client whose
  answers are fixed in advance (the answer of \<open>Kill\<close> may depend on the signal), on the
  handle of the task with identifier \<open>task-1\<close> and name \<open>redis\<close>, in a world where
  nothing has happened yet.
\<close>

definition fake_runtime ::
  "error option \<Rightarrow> (Signal \<Rightarrow> error option) \<Rightarrow> containerd_Status \<times> error option
     \<Rightarrow> error option \<Rightarrow> error option \<Rightarrow> runtime" where
  "fake_runtime start kill status task_delete container_delete =
     \<lparr>rt_Start = (\<lambda>w t ctx. start),
      rt_Kill = (\<lambda>w t ctx s. kill s),
      rt_Status = (\<lambda>w t ctx. status),
      rt_task_Delete = (\<lambda>w t ctx. (None, task_delete)),
      rt_container_Delete = (\<lambda>w c ctx opts. container_delete),
      rt_elapse = (\<lambda>w. 0)\<rparr>"

definition redis_handle :: taskHandle where
  "redis_handle =
     \<lparr>stateLock = RWMutex False 0,
      logger = Logger ''containerd'',
      taskConfig = \<lparr>TaskConfig_ID = ''task-1'', TaskConfig_Name = ''redis''\<rparr>,
      procState = TaskStateRunning,
      startedAt = 1,
      completedAt = 0,
      exitResult = None,
      containerName = ''redis-task-1'',
      container = Container ''redis-task-1'',
      task = Task ''redis-task-1''\<rparr>"

definition exited_handle :: taskHandle where
  "exited_handle =
     redis_handle\<lparr>procState := TaskStateExited, completedAt := 42,
       exitResult := Some \<lparr>ExitCode = 0, ExitSignal = 0, OOMKilled = False\<rparr>\<rparr>"

definition epoch :: world where
  "epoch = \<lparr>now = 0, trace = []\<rparr>"

definition background :: Context where
  "background = Context ''background''"

definition reports :: "ProcessStatus \<Rightarrow> containerd_Status" where
  "reports p = \<lparr>Status = p, ExitStatus = 0, ExitTime = 0\<rparr>"

section \<open>Properties\<close>

subsection \<open>Events and the scripted runtime\<close>

lemma trace_issue: "trace (issue rt e d w) = trace w @ [(now w, e)]"
  by (simp add: issue_def)

lemma now_issue: "now (issue rt e d w) = now w + max 0 d + int (rt_elapse rt w)"
  by (simp add: issue_def)

lemma length_trace_issue: "length (trace (issue rt e d w)) = Suc (length (trace w))"
  by (simp add: trace_issue)

lemma issued_self: "issued w w = []"
  by (simp add: issued_def)

lemma issued_issue:
  "length (trace w) \<le> length (trace w') \<Longrightarrow>
   issued w (issue rt e d w') = issued w w' @ [(now w', e)]"
  by (simp add: issued_def trace_issue)

lemma fake:
  "rt_Start (fake_runtime a b c d e) w t ctx = a"
  "rt_Kill (fake_runtime a b c d e) w t ctx s = b s"
  "rt_Status (fake_runtime a b c d e) w t ctx = c"
  "rt_task_Delete (fake_runtime a b c d e) w t ctx = (None, d)"
  "rt_container_Delete (fake_runtime a b c d e) w cn ctx opts = e"
  "rt_elapse (fake_runtime a b c d e) w = 0"
  by (simp_all add: fake_runtime_def)

subsection \<open>What each operation does to the handle\<close>

text \<open>
  With the state lock free, \<open>run\<close> sleeps, starts and returns with the lock free again;
  otherwise it issues nothing.
\<close>

lemma run_cases:
  "run rt ctx h w =
     (if stateLock h = RWMutex False 0
      then (Returned (), h,
            issue rt (EvStart (task h) ctx) 0 (issue rt (EvSleep (5 * Second)) (5 * Second) w))
      else (Blocked, h, w))"
proof (cases "stateLock h")
  case (RWMutex wr rd)
  show ?thesis
  proof (cases "\<not> wr \<and> rd = 0")
    case True
    with RWMutex have "h\<lparr>stateLock := RWMutex False 0\<rparr> = h"
      by simp
    with True RWMutex show ?thesis
      by (simp add: run_def Unlock_def time_Sleep_def task_Start_def)
  next
    case False
    then have "Lock (RWMutex wr rd) = None"
      by (cases wr; cases rd) simp_all
    with False RWMutex show ?thesis
      by (auto simp add: run_def)
  qed
qed

lemma TaskStatus_handle: "\<exists>m. snd (TaskStatus h) = h\<lparr>stateLock := m\<rparr>"
  by (cases "stateLock h")
    (auto simp add: TaskStatus_def RLock_def RUnlock_def Let_def intro: exI [of _ "stateLock h"])

lemma IsRunning_handle: "\<exists>m. snd (IsRunning h) = h\<lparr>stateLock := m\<rparr>"
  by (cases "stateLock h")
    (auto simp add: IsRunning_def RLock_def RUnlock_def Let_def intro: exI [of _ "stateLock h"])

lemma TaskStatus_free:
  "stateLock h = RWMutex False 0 \<Longrightarrow> stateLock (snd (TaskStatus h)) = RWMutex False 0"
  by (simp add: TaskStatus_def RLock_def RUnlock_def)

lemma IsRunning_free:
  "stateLock h = RWMutex False 0 \<Longrightarrow> stateLock (snd (IsRunning h)) = RWMutex False 0"
  by (simp add: IsRunning_def RLock_def RUnlock_def)

lemma shutdown_handle: "fst (snd (shutdown rt ctx timeout sig h w)) = h"
  by (simp add: shutdown_def Let_def split: prod.splits)

lemma cleanup_handle: "fst (snd (cleanup rt ctx h w)) = h"
  by (simp add: cleanup_def Let_def split: prod.splits)

lemma signal_handle: "fst (snd (signal rt ctx sig h w)) = h"
  by (simp add: signal_def Let_def split: prod.splits option.splits)

lemma perform_handle: "\<exists>m. fst (perform rt op (h, w)) = h\<lparr>stateLock := m\<rparr>"
proof (cases op)
  case OpTaskStatus
  then show ?thesis using TaskStatus_handle [of h] by simp
next
  case OpIsRunning
  then show ?thesis using IsRunning_handle [of h] by simp
next
  case (OpRun ctx)
  then show ?thesis by (auto simp add: run_cases intro: exI [of _ "stateLock h"])
next
  case (OpShutdown ctx timeout sig)
  then show ?thesis
    using shutdown_handle [of rt ctx timeout sig h w] by (auto intro: exI [of _ "stateLock h"])
next
  case (OpCleanup ctx)
  then show ?thesis
    using cleanup_handle [of rt ctx h w] by (auto intro: exI [of _ "stateLock h"])
next
  case (OpStats ctx interval)
  then show ?thesis by (auto simp add: stats_def intro: exI [of _ "stateLock h"])
next
  case (OpSignal ctx sig)
  then show ?thesis
    using signal_handle [of rt ctx sig h w] by (auto intro: exI [of _ "stateLock h"])
qed

lemma perform_all_handle: "\<exists>m. fst (perform_all rt ops (h, w)) = h\<lparr>stateLock := m\<rparr>"
proof (induction ops arbitrary: h w)
  case Nil
  show ?case by (auto intro: exI [of _ "stateLock h"])
next
  case (Cons op ops)
  obtain h1 w1 where step: "perform rt op (h, w) = (h1, w1)"
    by (cases "perform rt op (h, w)")
  from perform_handle [of rt op h w] step obtain m1 where h1: "h1 = h\<lparr>stateLock := m1\<rparr>"
    by auto
  from Cons.IH [of h1 w1] obtain m
    where "fst (perform_all rt ops (h1, w1)) = h1\<lparr>stateLock := m\<rparr>"
    by blast
  with step h1 show ?case by auto
qed

text \<open>
  Every operation gives the state lock back: between two operations of a sequential
  driver the lock is free, which is the state in which \<open>run\<close> does not block.
\<close>

lemma perform_free:
  assumes "stateLock h = RWMutex False 0"
  shows "stateLock (fst (perform rt op (h, w))) = RWMutex False 0"
proof (cases op)
  case OpTaskStatus
  with assms show ?thesis by (simp add: TaskStatus_free)
next
  case OpIsRunning
  with assms show ?thesis by (simp add: IsRunning_free)
next
  case (OpRun ctx)
  with assms show ?thesis by (simp add: run_cases)
next
  case (OpShutdown ctx timeout sig)
  with assms show ?thesis by (simp add: shutdown_handle)
next
  case (OpCleanup ctx)
  with assms show ?thesis by (simp add: cleanup_handle)
next
  case (OpStats ctx interval)
  with assms show ?thesis by (simp add: stats_def)
next
  case (OpSignal ctx sig)
  with assms show ?thesis by (simp add: signal_handle)
qed

lemma perform_all_free:
  "stateLock h = RWMutex False 0 \<Longrightarrow>
   stateLock (fst (perform_all rt ops (h, w))) = RWMutex False 0"
proof (induction ops arbitrary: h w)
  case Nil
  then show ?case by simp
next
  case (Cons op ops)
  obtain h1 w1 where step: "perform rt op (h, w) = (h1, w1)"
    by (cases "perform rt op (h, w)")
  with perform_free [OF Cons.prems, of rt op w] have "stateLock h1 = RWMutex False 0"
    by simp
  from Cons.IH [OF this, of w1] step show ?case by simp
qed

lemma exited_has_result_lock: "exited_has_result (h\<lparr>stateLock := m\<rparr>) = exited_has_result h"
  by (simp add: exited_has_result_def)

lemma TaskStatus_result:
  "fst (TaskStatus h) = Returned s \<Longrightarrow>
   State s = procState h \<and> ExitResult s = exitResult h \<and> CompletedAt s = completedAt h"
  by (auto simp add: TaskStatus_def Let_def split: option.splits)

subsection \<open>shutdown\<close>

text \<open>
  C1 does not hold as stated for every signal. When the caller's own signal is SIGKILL,
  the first delivery is already a forceful kill: against a runtime that reports Running
  the call delivers two forceful kills, not exactly one, and against a runtime that
  reports Stopped it returns nil after having delivered one, not none. Both deliveries
  of the caller's signal return nil and both status queries return no error.
\<close>

theorem shutdown_sigkill_counterexample:
  "rt_Kill (fake_runtime None (\<lambda>s. None) (reports Running, None) None None)
      epoch (task redis_handle) background SIGKILL = None \<and>
   snd (rt_Status (fake_runtime None (\<lambda>s. None) (reports Running, None) None None)
      (time_Sleep (fake_runtime None (\<lambda>s. None) (reports Running, None) None None)
         (5 * Second)
         (snd (task_Kill (fake_runtime None (\<lambda>s. None) (reports Running, None) None None)
                 (task redis_handle) background SIGKILL epoch)))
      (task redis_handle) background) = None \<and>
   calls epoch (snd (snd (shutdown
         (fake_runtime None (\<lambda>s. None) (reports Running, None) None None)
         background (5 * Second) SIGKILL redis_handle epoch)))
     = [EvKill (Task ''redis-task-1'') background SIGKILL, EvSleep (5 * Second),
        EvStatus (Task ''redis-task-1'') background,
        EvKill (Task ''redis-task-1'') background SIGKILL] \<and>
   forceful_kills (calls epoch (snd (snd (shutdown
         (fake_runtime None (\<lambda>s. None) (reports Running, None) None None)
         background (5 * Second) SIGKILL redis_handle epoch)))) = 2 \<and>
   rt_Kill (fake_runtime None (\<lambda>s. None) (reports Stopped, None) None None)
      epoch (task redis_handle) background SIGKILL = None \<and>
   snd (rt_Status (fake_runtime None (\<lambda>s. None) (reports Stopped, None) None None)
      (time_Sleep (fake_runtime None (\<lambda>s. None) (reports Stopped, None) None None)
         (5 * Second)
         (snd (task_Kill (fake_runtime None (\<lambda>s. None) (reports Stopped, None) None None)
                 (task redis_handle) background SIGKILL epoch)))
      (task redis_handle) background) = None \<and>
   fst (shutdown
         (fake_runtime None (\<lambda>s. None) (reports Stopped, None) None None)
         background (5 * Second) SIGKILL redis_handle epoch) = Returned None \<and>
   forceful_kills (calls epoch (snd (snd (shutdown
         (fake_runtime None (\<lambda>s. None) (reports Stopped, None) None None)
         background (5 * Second) SIGKILL redis_handle epoch)))) = 1"
  by (simp add: fake shutdown_def task_Kill_def task_Status_def time_Sleep_def logger_Info_def
      calls_def issued_issue issued_self length_trace_issue forceful_kills_def reports_def
      redis_handle_def)

text \<open>
  C1, amended. Let the first \<open>Kill\<close>, with the caller's signal, return nil, and let the
  status query after the wait return a status and no error. If that status is Running,
  \<open>shutdown\<close> delivers exactly one forceful kill after the query, the one call it makes
  there, and returns what that call returns; if it is anything else, \<open>shutdown\<close>
  returns nil and after the query only writes a log line, so no forceful kill follows the
  query. For every caller's signal other than SIGKILL these are the counts over the whole
  call: exactly one forceful kill when Running, none otherwise. In both cases the whole
  sequence of calls is given: the first entry is the delivery of the caller's signal.
\<close>

theorem shutdown_escalation:
  assumes "rt_Kill rt w (task h) ctx sig = None"
    and "ws = time_Sleep rt timeout (snd (task_Kill rt (task h) ctx sig w))"
    and "rt_Status rt ws (task h) ctx = (st, None)"
    and "wk = snd (task_Status rt (task h) ctx ws)"
  shows "(Status st = Running \<longrightarrow>
            fst (shutdown rt ctx timeout sig h w) = Returned (rt_Kill rt wk (task h) ctx SIGKILL) \<and>
            calls wk (snd (snd (shutdown rt ctx timeout sig h w))) = [EvKill (task h) ctx SIGKILL] \<and>
            calls w (snd (snd (shutdown rt ctx timeout sig h w))) =
              [EvKill (task h) ctx sig, EvSleep timeout, EvStatus (task h) ctx,
               EvKill (task h) ctx SIGKILL] \<and>
            forceful_kills (calls wk (snd (snd (shutdown rt ctx timeout sig h w)))) = 1 \<and>
            (sig \<noteq> SIGKILL \<longrightarrow>
               forceful_kills (calls w (snd (snd (shutdown rt ctx timeout sig h w)))) = 1)) \<and>
         (Status st \<noteq> Running \<longrightarrow>
            fst (shutdown rt ctx timeout sig h w) = Returned None \<and>
            calls wk (snd (snd (shutdown rt ctx timeout sig h w))) =
              [EvInfo (logger h) ''Task is not running anymore, no need to SIGKILL''] \<and>
            calls w (snd (snd (shutdown rt ctx timeout sig h w))) =
              [EvKill (task h) ctx sig, EvSleep timeout, EvStatus (task h) ctx,
               EvInfo (logger h) ''Task is not running anymore, no need to SIGKILL''] \<and>
            forceful_kills (calls wk (snd (snd (shutdown rt ctx timeout sig h w)))) = 0 \<and>
            (sig \<noteq> SIGKILL \<longrightarrow>
               forceful_kills (calls w (snd (snd (shutdown rt ctx timeout sig h w)))) = 0))"
proof -
  let ?w' = "snd (snd (shutdown rt ctx timeout sig h w))"
  let ?msg = "''Task is not running anymore, no need to SIGKILL''"
  have running:
    "fst (shutdown rt ctx timeout sig h w) = Returned (rt_Kill rt wk (task h) ctx SIGKILL) \<and>
     calls wk ?w' = [EvKill (task h) ctx SIGKILL] \<and>
     calls w ?w' =
       [EvKill (task h) ctx sig, EvSleep timeout, EvStatus (task h) ctx,
        EvKill (task h) ctx SIGKILL]"
    if "Status st = Running"
    using assms that
    by (simp add: shutdown_def task_Kill_def task_Status_def time_Sleep_def
        calls_def issued_issue issued_self length_trace_issue Let_def)
  have stopped:
    "fst (shutdown rt ctx timeout sig h w) = Returned None \<and>
     calls wk ?w' = [EvInfo (logger h) ?msg] \<and>
     calls w ?w' =
       [EvKill (task h) ctx sig, EvSleep timeout, EvStatus (task h) ctx,
        EvInfo (logger h) ?msg]"
    if "Status st \<noteq> Running"
    using assms that
    by (simp add: shutdown_def task_Kill_def task_Status_def time_Sleep_def logger_Info_def
        calls_def issued_issue issued_self length_trace_issue Let_def)
  show ?thesis
  proof (cases "Status st = Running")
    case True
    with running show ?thesis
      by (simp add: forceful_kills_def)
  next
    case False
    with stopped show ?thesis
      by (simp add: forceful_kills_def)
  qed
qed

text \<open>
  The scenario of the specification: SIGTERM with a grace period of five seconds. Against
  a runtime that reports Running, two \<open>Kill\<close> calls are recorded, the second with
  SIGKILL, and its error is the result: one forceful kill. Against one that reports
  Stopped, one \<open>Kill\<close> is recorded: no forceful kill.
\<close>

theorem shutdown_escalation_witness:
  "SIGTERM \<noteq> SIGKILL \<and>
   fst (shutdown
         (fake_runtime None (\<lambda>s. if s = SIGKILL then Some (Error ''no such process'') else None)
            (reports Running, None) None None)
         background (5 * Second) SIGTERM redis_handle epoch)
     = Returned (Some (Error ''no such process'')) \<and>
   calls epoch (snd (snd (shutdown
         (fake_runtime None (\<lambda>s. if s = SIGKILL then Some (Error ''no such process'') else None)
            (reports Running, None) None None)
         background (5 * Second) SIGTERM redis_handle epoch)))
     = [EvKill (Task ''redis-task-1'') background SIGTERM, EvSleep (5 * Second),
        EvStatus (Task ''redis-task-1'') background,
        EvKill (Task ''redis-task-1'') background SIGKILL] \<and>
   forceful_kills (calls epoch (snd (snd (shutdown
         (fake_runtime None (\<lambda>s. if s = SIGKILL then Some (Error ''no such process'') else None)
            (reports Running, None) None None)
         background (5 * Second) SIGTERM redis_handle epoch)))) = 1 \<and>
   fst (shutdown
         (fake_runtime None (\<lambda>s. if s = SIGKILL then Some (Error ''no such process'') else None)
            (reports Stopped, None) None None)
         background (5 * Second) SIGTERM redis_handle epoch)
     = Returned None \<and>
   calls epoch (snd (snd (shutdown
         (fake_runtime None (\<lambda>s. if s = SIGKILL then Some (Error ''no such process'') else None)
            (reports Stopped, None) None None)
         background (5 * Second) SIGTERM redis_handle epoch)))
     = [EvKill (Task ''redis-task-1'') background SIGTERM, EvSleep (5 * Second),
        EvStatus (Task ''redis-task-1'') background,
        EvInfo (Logger ''containerd'') ''Task is not running anymore, no need to SIGKILL''] \<and>
   forceful_kills (calls epoch (snd (snd (shutdown
         (fake_runtime None (\<lambda>s. if s = SIGKILL then Some (Error ''no such process'') else None)
            (reports Stopped, None) None None)
         background (5 * Second) SIGTERM redis_handle epoch)))) = 0"
  using
    shutdown_escalation [OF _ refl _ refl, where h = redis_handle and w = epoch
      and ctx = background and sig = SIGTERM and timeout = "5 * Second"
      and st = "reports Running" and rt =
      "fake_runtime None (\<lambda>s. if s = SIGKILL then Some (Error ''no such process'') else None)
         (reports Running, None) None None"]
    shutdown_escalation [OF _ refl _ refl, where h = redis_handle and w = epoch
      and ctx = background and sig = SIGTERM and timeout = "5 * Second"
      and st = "reports Stopped" and rt =
      "fake_runtime None (\<lambda>s. if s = SIGKILL then Some (Error ''no such process'') else None)
         (reports Stopped, None) None None"]
  by (simp add: fake SIGTERM_def SIGKILL_def redis_handle_def reports_def forceful_kills_def)





subsection \<open>cleanup\<close>

text \<open>
  C2. \<open>cleanup\<close> deletes the task first. If that returns an error, the error is the
  result and the task deletion is the only call: the container deletion is not invoked.
  If it returns nil, the container deletion follows, with snapshot cleanup requested;
  an error of the container deletion is the result, and nil is the result when both
  return nil.
\<close>

theorem cleanup_order_and_errors:
  assumes "wc = snd (task_Delete rt (task h) ctx w)"
  shows "(\<forall>e. snd (rt_task_Delete rt w (task h) ctx) = Some e \<longrightarrow>
            fst (cleanup rt ctx h w) = Returned (Some e) \<and>
            calls w (snd (snd (cleanup rt ctx h w))) = [EvTaskDelete (task h) ctx]) \<and>
         (snd (rt_task_Delete rt w (task h) ctx) = None \<longrightarrow>
            calls w (snd (snd (cleanup rt ctx h w))) =
              [EvTaskDelete (task h) ctx,
               EvContainerDelete (container h) ctx [WithSnapshotCleanup]] \<and>
            (\<forall>e. rt_container_Delete rt wc (container h) ctx [WithSnapshotCleanup] = Some e \<longrightarrow>
                 fst (cleanup rt ctx h w) = Returned (Some e)) \<and>
            (rt_container_Delete rt wc (container h) ctx [WithSnapshotCleanup] = None \<longrightarrow>
                 fst (cleanup rt ctx h w) = Returned None))"
  using assms
  by (auto simp add: cleanup_def task_Delete_def container_Delete_def
      calls_def issued_issue issued_self length_trace_issue Let_def split: prod.splits)

theorem cleanup_order_and_errors_witness:
  "fst (cleanup (fake_runtime None (\<lambda>s. None) (reports Stopped, None)
          (Some (Error ''task still running'')) None)
        background redis_handle epoch)
     = Returned (Some (Error ''task still running'')) \<and>
   calls epoch (snd (snd (cleanup (fake_runtime None (\<lambda>s. None) (reports Stopped, None)
          (Some (Error ''task still running'')) None)
        background redis_handle epoch)))
     = [EvTaskDelete (Task ''redis-task-1'') background] \<and>
   fst (cleanup (fake_runtime None (\<lambda>s. None) (reports Stopped, None)
          None (Some (Error ''snapshot busy'')))
        background redis_handle epoch)
     = Returned (Some (Error ''snapshot busy'')) \<and>
   calls epoch (snd (snd (cleanup (fake_runtime None (\<lambda>s. None) (reports Stopped, None)
          None (Some (Error ''snapshot busy'')))
        background redis_handle epoch)))
     = [EvTaskDelete (Task ''redis-task-1'') background,
        EvContainerDelete (Container ''redis-task-1'') background [WithSnapshotCleanup]] \<and>
   fst (cleanup (fake_runtime None (\<lambda>s. None) (reports Stopped, None) None None)
        background redis_handle epoch)
     = Returned None"
  using
    cleanup_order_and_errors [OF refl, where h = redis_handle and w = epoch
      and ctx = background and rt =
      "fake_runtime None (\<lambda>s. None) (reports Stopped, None)
         (Some (Error ''task still running'')) None"]
    cleanup_order_and_errors [OF refl, where h = redis_handle and w = epoch
      and ctx = background and rt =
      "fake_runtime None (\<lambda>s. None) (reports Stopped, None)
         None (Some (Error ''snapshot busy''))"]
    cleanup_order_and_errors [OF refl, where h = redis_handle and w = epoch
      and ctx = background and rt =
      "fake_runtime None (\<lambda>s. None) (reports Stopped, None) None None"]
  by (simp add: fake redis_handle_def)

subsection \<open>signal\<close>

text \<open>
  C3 does not hold as stated. Given a signal of another type than
  \<open>syscall.Signal\<close>, \<open>signal\<close> does not return an error: the type assertion panics
  and the call does not return at all.
\<close>

theorem signal_returns_error_counterexample:
  "\<not> returns_error
       (fst (signal (fake_runtime None (\<lambda>s. None) (reports Running, None) None None)
               background (foreign_Signal ''custom'') redis_handle epoch))"
  by (simp add: signal_def)

text \<open>
  C3, amended. For every signal value that is not a \<open>syscall.Signal\<close> (a value of
  another type, or nil), \<open>signal\<close> panics at the type assertion; the handle and the
  world are as before, so no \<open>Kill\<close> and no other runtime call was made.
\<close>

theorem signal_unrepresentable_panics:
  assumes "assert_syscall_Signal sig = None"
  shows "signal rt ctx sig h w = (Panicked, h, w) \<and>
         calls w (snd (snd (signal rt ctx sig h w))) = []"
  using assms by (simp add: signal_def calls_def issued_self)

theorem signal_unrepresentable_panics_witness:
  "assert_syscall_Signal nil_Signal = None \<and>
   signal (fake_runtime None (\<lambda>s. None) (reports Running, None) None None)
        background nil_Signal redis_handle epoch
     = (Panicked, redis_handle, epoch)"
  using signal_unrepresentable_panics [where sig = nil_Signal and h = redis_handle
      and w = epoch and ctx = background and rt =
      "fake_runtime None (\<lambda>s. None) (reports Running, None) None None"]
  by simp

subsection \<open>run\<close>

text \<open>
  C4 does not hold as stated. \<open>Start\<close> returns an error, and \<open>run\<close> returns
  as it does when \<open>Start\<close> returns nil: its result, the handle and the calls recorded
  are the same in both runs, and nothing of the error reaches the caller.
\<close>

theorem run_start_error_counterexample:
  "rt_Start (fake_runtime (Some (Error ''start failed'')) (\<lambda>s. None)
        (reports Running, None) None None)
      (time_Sleep (fake_runtime (Some (Error ''start failed'')) (\<lambda>s. None)
        (reports Running, None) None None) (5 * Second) epoch)
      (task redis_handle) background = Some (Error ''start failed'') \<and>
   run (fake_runtime (Some (Error ''start failed'')) (\<lambda>s. None)
        (reports Running, None) None None) background redis_handle epoch
     = (Returned (), redis_handle,
        \<lparr>now = 5000000000,
         trace = [(0, EvSleep 5000000000),
                  (5000000000, EvStart (Task ''redis-task-1'') background)]\<rparr>) \<and>
   run (fake_runtime (Some (Error ''start failed'')) (\<lambda>s. None)
        (reports Running, None) None None) background redis_handle epoch
     = run (fake_runtime None (\<lambda>s. None)
        (reports Running, None) None None) background redis_handle epoch"
  by (simp add: fake run_cases redis_handle_def epoch_def issue_def Second_def)

text \<open>
  C4, amended. \<open>run\<close> has no result, and what \<open>Start\<close> returns is discarded: for
  every runtime, replacing the answers of \<open>Start\<close> by any others changes nothing of
  what \<open>run\<close> gives back, which is a plain return or, with the state lock taken, a
  wait for it.
\<close>

theorem run_discards_start_result:
  "run (rt\<lparr>rt_Start := start\<rparr>) ctx h w = run rt ctx h w \<and>
   (fst (run rt ctx h w) = Returned () \<or> fst (run rt ctx h w) = Blocked)"
proof
  have "issue (rt\<lparr>rt_Start := start\<rparr>) e d v = issue rt e d v" for e d v
    by (simp add: issue_def)
  then show "run (rt\<lparr>rt_Start := start\<rparr>) ctx h w = run rt ctx h w"
    by (simp add: run_cases)
next
  show "fst (run rt ctx h w) = Returned () \<or> fst (run rt ctx h w) = Blocked"
    by (simp add: run_cases)
qed

theorem run_discards_start_result_witness:
  "run ((fake_runtime None (\<lambda>s. None) (reports Running, None) None None)
         \<lparr>rt_Start := \<lambda>w t ctx. Some (Error ''start failed'')\<rparr>)
       background redis_handle epoch
     = run (fake_runtime None (\<lambda>s. None) (reports Running, None) None None)
         background redis_handle epoch \<and>
   fst (run (fake_runtime None (\<lambda>s. None) (reports Running, None) None None)
         background redis_handle epoch) = Returned ()"
  using run_discards_start_result [where h = redis_handle and w = epoch and ctx = background
      and start = "\<lambda>w t ctx. Some (Error ''start failed'')" and rt =
      "fake_runtime None (\<lambda>s. None) (reports Running, None) None None"]
  by (simp add: run_cases redis_handle_def)

text \<open>
  C7. On the clock of the world, in which a sleep lasts at least its duration: no
  \<open>Start\<close> that \<open>run\<close> issues is issued earlier than five seconds after \<open>run\<close> was
  entered. With the state lock free, \<open>run\<close> returns after exactly two calls, the sleep
  of five seconds at entry and then the one \<open>Start\<close>.
\<close>

theorem run_start_after_grace_period:
  "(\<forall>(t, e) \<in> set (issued w (snd (snd (run rt ctx h w)))).
       is_Start e \<longrightarrow> now w + 5 * Second \<le> t) \<and>
   (stateLock h = RWMutex False 0 \<longrightarrow>
      fst (run rt ctx h w) = Returned () \<and>
      length (filter is_Start (calls w (snd (snd (run rt ctx h w))))) = 1 \<and>
      (\<exists>t. now w + 5 * Second \<le> t \<and>
           issued w (snd (snd (run rt ctx h w))) =
             [(now w, EvSleep (5 * Second)), (t, EvStart (task h) ctx)]))"
  by (simp add: run_cases calls_def issued_issue issued_self length_trace_issue now_issue
      Second_def)

theorem run_start_after_grace_period_witness:
  "stateLock redis_handle = RWMutex False 0 \<and>
   fst (run ((fake_runtime None (\<lambda>s. None) (reports Running, None) None None)
            \<lparr>rt_elapse := \<lambda>w. 7\<rparr>)
        background redis_handle epoch) = Returned () \<and>
   (\<exists>t. 5 * Second \<le> t \<and>
      issued epoch (snd (snd (run ((fake_runtime None (\<lambda>s. None)
          (reports Running, None) None None) \<lparr>rt_elapse := \<lambda>w. 7\<rparr>)
        background redis_handle epoch)))
        = [(0, EvSleep (5 * Second)), (t, EvStart (Task ''redis-task-1'') background)])"
  using run_start_after_grace_period [where h = redis_handle and w = epoch and ctx = background
      and rt = "(fake_runtime None (\<lambda>s. None) (reports Running, None) None None)
            \<lparr>rt_elapse := \<lambda>w. 7\<rparr>"]
  by (simp add: redis_handle_def epoch_def)

subsection \<open>The status fields\<close>

text \<open>
  C8. Take a handle on which state Exited implies an exit result and a non-zero
  completion time (the handle is created, and its fields are written, outside this file).
  Every operation of the handle preserves that, so it holds after every sequence of
  operations, and every snapshot \<open>TaskStatus\<close> then returns has it: State Exited implies
  ExitResult non-nil and CompletedAt non-zero.
\<close>

theorem exited_invariant_preserved:
  assumes "exited_has_result h"
  shows "exited_has_result (fst (perform rt op (h, w))) \<and>
         exited_has_result (fst (perform_all rt ops (h, w))) \<and>
         (\<forall>s. fst (TaskStatus (fst (perform_all rt ops (h, w)))) = Returned s \<longrightarrow>
              status_exited_has_result s)"
proof -
  obtain m where one: "fst (perform rt op (h, w)) = h\<lparr>stateLock := m\<rparr>"
    using perform_handle by blast
  obtain m' where all: "fst (perform_all rt ops (h, w)) = h\<lparr>stateLock := m'\<rparr>"
    using perform_all_handle by blast
  have inv: "exited_has_result (h\<lparr>stateLock := m'\<rparr>)"
    using assms by (simp add: exited_has_result_lock)
  have "status_exited_has_result s"
    if "fst (TaskStatus (h\<lparr>stateLock := m'\<rparr>)) = Returned s" for s
    using TaskStatus_result [OF that] inv
    by (simp add: status_exited_has_result_def exited_has_result_def)
  with one all inv assms show ?thesis
    by (simp add: exited_has_result_lock)
qed

theorem exited_invariant_preserved_witness:
  "exited_has_result exited_handle \<and>
   procState (fst (perform_all
        (fake_runtime None (\<lambda>s. None) (reports Running, None) None None)
        [OpRun background, OpSignal background nil_Signal,
         OpShutdown background (5 * Second) SIGTERM, OpCleanup background]
        (exited_handle, epoch))) = TaskStateExited \<and>
   exited_has_result (fst (perform_all
        (fake_runtime None (\<lambda>s. None) (reports Running, None) None None)
        [OpRun background, OpSignal background nil_Signal,
         OpShutdown background (5 * Second) SIGTERM, OpCleanup background]
        (exited_handle, epoch))) \<and>
   (\<exists>s. fst (TaskStatus (fst (perform_all
        (fake_runtime None (\<lambda>s. None) (reports Running, None) None None)
        [OpRun background, OpSignal background nil_Signal,
         OpShutdown background (5 * Second) SIGTERM, OpCleanup background]
        (exited_handle, epoch)))) = Returned s \<and> State s = TaskStateExited \<and>
        status_exited_has_result s)"
proof -
  let ?rt = "fake_runtime None (\<lambda>s. None) (reports Running, None) None None"
  let ?ops = "[OpRun background, OpSignal background nil_Signal,
         OpShutdown background (5 * Second) SIGTERM, OpCleanup background]"
  have pre: "exited_has_result exited_handle"
    by (simp add: exited_has_result_def exited_handle_def)
  have final: "fst (perform_all ?rt ?ops (exited_handle, epoch)) = exited_handle"
    by (simp add: run_cases signal_def shutdown_def cleanup_def task_Kill_def task_Status_def
        task_Delete_def container_Delete_def time_Sleep_def fake reports_def exited_handle_def
        redis_handle_def)
  have st: "fst (TaskStatus exited_handle) =
      Returned \<lparr>ID = ''task-1'', Name = ''redis'', State = TaskStateExited, StartedAt = 1,
        CompletedAt = 42,
        ExitResult = Some \<lparr>ExitCode = 0, ExitSignal = 0, OOMKilled = False\<rparr>,
        DriverAttributes = [''containerName'' \<mapsto> ''redis-task-1'']\<rparr>"
    by (simp add: TaskStatus_def RLock_def RUnlock_def exited_handle_def redis_handle_def)
  from exited_invariant_preserved [OF pre, of ?rt "OpRun background" epoch ?ops]
  show ?thesis
    using pre final st by (simp add: exited_handle_def redis_handle_def)
qed

text \<open>
  C9. After \<open>run\<close> the state, both timestamps, the exit result, the container name
  and the task configuration with its identifiers are what they were before, and so is
  the whole handle: the state lock that \<open>run\<close> takes is given back. \<open>shutdown\<close>
  writes no field at all. Neither of them moves the state to Running or to Exited.
\<close>

theorem run_shutdown_frame:
  "procState (fst (snd (run rt ctx h w))) = procState h \<and>
   startedAt (fst (snd (run rt ctx h w))) = startedAt h \<and>
   completedAt (fst (snd (run rt ctx h w))) = completedAt h \<and>
   exitResult (fst (snd (run rt ctx h w))) = exitResult h \<and>
   containerName (fst (snd (run rt ctx h w))) = containerName h \<and>
   taskConfig (fst (snd (run rt ctx h w))) = taskConfig h \<and>
   fst (snd (run rt ctx h w)) = h \<and>
   fst (snd (shutdown rt ctx' timeout sig h w)) = h"
proof -
  have "fst (snd (run rt ctx h w)) = h"
    by (simp add: run_cases)
  moreover have "fst (snd (shutdown rt ctx' timeout sig h w)) = h"
    by (rule shutdown_handle)
  ultimately show ?thesis
    by simp
qed

theorem run_shutdown_frame_witness:
  "procState (fst (snd (run (fake_runtime None (\<lambda>s. None) (reports Running, None) None None)
       background (redis_handle\<lparr>procState := TaskStatePending\<rparr>) epoch))) = TaskStatePending \<and>
   fst (snd (shutdown (fake_runtime None (\<lambda>s. None) (reports Running, None) None None)
       background (5 * Second) SIGTERM (redis_handle\<lparr>procState := TaskStatePending\<rparr>) epoch))
     = redis_handle\<lparr>procState := TaskStatePending\<rparr>"
  using run_shutdown_frame [where h = "redis_handle\<lparr>procState := TaskStatePending\<rparr>"
      and w = epoch and ctx = background and ctx' = background and timeout = "5 * Second"
      and sig = SIGTERM
      and rt = "fake_runtime None (\<lambda>s. None) (reports Running, None) None None"]
  by simp

subsection \<open>stats\<close>

text \<open>
  C10. For every context and interval, \<open>stats\<close> returns the nil channel and the nil
  error: it never returns an error, its channel never delivers a value, and it leaves the
  handle and the world as they were.
\<close>

theorem stats_returns_nothing:
  "stats ctx interval h w = (Returned (None, None), h, w) \<and>
   (\<exists>ch. fst (stats ctx interval h w) = Returned (ch, None) \<and> delivered ch = [])"
  by (simp add: stats_def)

end
